theory Spec2Isabelle
  imports Main "HOL-Library.Sublist"
begin

section \<open>Errors\<close>

text \<open>
  Every exception the modelled code can raise is a value. \<open>NoResultFound\<close> and
  \<open>MultipleResultsFound\<close> are raised by the query result accessors,
  \<open>AttributeError\<close> by an attribute access on \<open>None\<close>, \<open>OverflowError\<close> by date
  arithmetic beyond year 9999, \<open>IntegrityError\<close> by the storage layer, and
  \<open>HTTPException status detail\<close> by the route handlers. \<open>MissingGreenlet\<close> is raised by
  an asynchronous session that has to load an expired attribute. \<open>Exception msg\<close> stands
  for any other exception of a collaborator, \<open>Exception ''DBAPIError''\<close> for a statement
  that the database refuses.
\<close>

datatype error =
    NoResultFound
  | MultipleResultsFound
  | AttributeError
  | OverflowError
  | IntegrityError
  | HTTPException nat string
  | MissingGreenlet
  | Exception string

section \<open>Data model\<close>

text \<open>A calendar date (\<open>datetime.date\<close>): year, month and day.\<close>

record date =
  year :: nat
  month :: nat
  day :: nat

text \<open>
  Modelled from the spec: the declaration of \<open>Contact\<close> (\<open>src/database/models.py\<close>) is
  not among the sources; the columns are those of the data model of the spec and of the
  constructor call in \<open>create_contact\<close>. \<open>created_at\<close> takes part in no operation and is
  left out. The owner column is nullable, since \<open>create_contact\<close> inserts rows without it.

  The type parameters are the types of the text attributes and of the date attribute. A
  stored row holds plain values (\<open>contact_row\<close>). An object whose attributes were
  assigned by \<open>update_contact\<close> holds what was assigned (\<open>contact_obj\<close>): a plain value or
  a one-element tuple.
\<close>

datatype 'a attr = Val 'a | Tuple1 'a

record ('s, 'd) contact =
  id_contact :: int
  user_id :: "int option"
  first_name :: 's
  last_name :: 's
  email :: 's
  phone :: 's
  birthday :: 'd
  additional_note :: "string option"

type_synonym contact_row = "(string, date) contact"
type_synonym contact_obj = "(string attr, date attr) contact"

text \<open>
  Modelled from the spec: \<open>ContactModel\<close> (\<open>src/schemas.py\<close>, not among the sources), the
  validated request body; its fields are the ones the repository reads.
\<close>

record contact_model =
  cm_first_name :: string
  cm_last_name :: string
  cm_email :: string
  cm_phone :: string
  cm_birthday :: date
  cm_additional_note :: "string option"

text \<open>
  Modelled from the spec: \<open>User\<close> (\<open>src/database/models.py\<close>, not among the sources)
  with the columns the routes and the repository read and write; \<open>role\<close> takes part in
  no modelled operation and is left out. \<open>UserSchema\<close> (\<open>src/schemas.py\<close>) is the
  signup body.
\<close>

record user =
  id_user :: int
  username :: string
  email_user :: string
  password :: string
  avatar :: "string option"
  is_confirmed :: bool
  refresh_token :: "string option"

record user_schema =
  us_username :: string
  us_email :: string
  us_password :: string

text \<open>
  The token service \<open>auth_service\<close> (\<open>src/services/auth.py\<close>, not among the sources) is
  a parameter: a record of its methods. A token payload is the dictionary passed as
  \<open>data\<close>; decoding a token returns the subject or raises.
\<close>

record auth_service =
  get_password_hash :: "string \<Rightarrow> string"
  verify_password :: "string \<Rightarrow> string \<Rightarrow> bool"
  create_access_token :: "(string \<times> string) list \<Rightarrow> string"
  create_refresh_token :: "(string \<times> string) list \<Rightarrow> string"
  get_email_form_refresh_token :: "string \<Rightarrow> error + string"
  get_email_from_token :: "string \<Rightarrow> error + string"

text \<open>A task handed to \<open>BackgroundTasks.add_task\<close>: the arguments of \<open>send_email\<close>.\<close>

type_synonym email_task = "string \<times> string \<times> string"

section \<open>Query results\<close>

text \<open>
  \<open>Result.scalar_one\<close> returns the only row and raises otherwise;
  \<open>Result.scalar_one_or_none\<close> returns \<open>None\<close> for no row.
\<close>

fun scalar_one :: "'a list \<Rightarrow> error + 'a" where
  "scalar_one [] = Inl NoResultFound"
| "scalar_one [x] = Inr x"
| "scalar_one (x # y # zs) = Inl MultipleResultsFound"

fun scalar_one_or_none :: "'a list \<Rightarrow> error + 'a option" where
  "scalar_one_or_none [] = Inr None"
| "scalar_one_or_none [x] = Inr (Some x)"
| "scalar_one_or_none (x # y # zs) = Inl MultipleResultsFound"

section \<open>Contact store (\<open>src/repository/contacts.py\<close>)\<close>

text \<open>
  The table is the list of its rows, in storage order. The parameters \<open>user_id\<close> and
  \<open>email\<close> of the source are \<open>uid\<close> and \<open>mail\<close> here, and \<open>user\<close> is \<open>usr\<close>: the names
  are taken by the columns and the record.

  \<open>Column.contains(s)\<close>, called without \<open>autoescape\<close>, renders
  \<open>column LIKE '%' || s || '%'\<close>: the characters of \<open>s\<close> that are special in a pattern stay
  special. The operator \<open>LIKE\<close> belongs to the database, which the sources do not fix
  (\<open>src/database/db.py\<close> is not among them), so it is the parameter \<open>like\<close> of
  \<open>get_contacts\<close>, applied to the column value and the pattern.
\<close>

definition contains :: "(string \<Rightarrow> string \<Rightarrow> bool) \<Rightarrow> string \<Rightarrow> string \<Rightarrow> bool" where
  "contains like col s = like col (''%'' @ s @ ''%'')"

text \<open>
  \<open>sql_like\<close> is the operator of PostgreSQL: it compares characters exactly (it is
  case-sensitive), \<open>%\<close> in the pattern stands for any sequence of characters, \<open>_\<close> for
  any single character, and the backslash (\<open>CHR 0x5C\<close>) makes the character after it
  stand for itself. A pattern that ends in a lone backslash is refused by the database;
  no pattern made by \<open>contains\<close> ends so, and the matcher answers \<open>False\<close> for it.
\<close>

fun like_match :: "string \<Rightarrow> string \<Rightarrow> bool" where
  "like_match [] [] = True"
| "like_match [] (c # cs) = False"
| "like_match (p # ps) [] = (p = CHR ''%'' \<and> like_match ps [])"
| "like_match (p # ps) (c # cs) =
     (if p = CHR ''%'' then like_match ps (c # cs) \<or> like_match (p # ps) cs
      else if p = CHR 0x5C then (case ps of [] \<Rightarrow> False | q # qs \<Rightarrow> q = c \<and> like_match qs cs)
      else (p = CHR ''_'' \<or> p = c) \<and> like_match ps cs)"

definition sql_like :: "string \<Rightarrow> string \<Rightarrow> bool" where
  "sql_like col pattern = like_match pattern col"

text \<open>
  \<open>get_contacts\<close>. \<open>if name:\<close> is false for \<open>None\<close> and for the empty string. \<open>skip\<close> and
  \<open>limit\<close> are the integers of the request, passed on unchecked; the database refuses a
  negative \<open>OFFSET\<close> or \<open>LIMIT\<close> when the statement is executed (as PostgreSQL does).
\<close>

definition get_contacts ::
  "(string \<Rightarrow> string \<Rightarrow> bool) \<Rightarrow> int \<Rightarrow> int \<Rightarrow> contact_row list \<Rightarrow> int
     \<Rightarrow> string option \<Rightarrow> string option \<Rightarrow> string option \<Rightarrow> error + contact_row list" where
  "get_contacts like skip limit db uid name surname mail =
     (let stmt = filter (\<lambda>c. user_id c = Some uid) db;
          stmt = (case name of
                    Some n \<Rightarrow> if n \<noteq> [] then filter (\<lambda>c. contains like (first_name c) n) stmt else stmt
                  | None \<Rightarrow> stmt);
          stmt = (case surname of
                    Some n \<Rightarrow> if n \<noteq> [] then filter (\<lambda>c. contains like (last_name c) n) stmt else stmt
                  | None \<Rightarrow> stmt);
          stmt = (case mail of
                    Some n \<Rightarrow> if n \<noteq> [] then filter (\<lambda>c. contains like (email c) n) stmt else stmt
                  | None \<Rightarrow> stmt)
      in if skip < 0 \<or> limit < 0 then Inl (Exception ''DBAPIError'')
         else Inr (take (nat limit) (drop (nat skip) stmt)))"

text \<open>
  The predicate of the specification: every supplied filter occurs in its column as a
  substring. A filter is \<open>literal\<close> when it has none of the characters that are special in
  a pattern.
\<close>

definition supplied :: "string option \<Rightarrow> string \<Rightarrow> bool" where
  "supplied f col = (case f of None \<Rightarrow> True | Some s \<Rightarrow> sublist s col)"

definition literal :: "string option \<Rightarrow> bool" where
  "literal f =
     (case f of
        None \<Rightarrow> True
      | Some s \<Rightarrow> CHR ''%'' \<notin> set s \<and> CHR ''_'' \<notin> set s \<and> CHR 0x5C \<notin> set s)"

definition matches :: "int \<Rightarrow> string option \<Rightarrow> string option \<Rightarrow> string option \<Rightarrow> contact_row \<Rightarrow> bool" where
  "matches uid name surname mail c =
     (user_id c = Some uid \<and> supplied name (first_name c) \<and> supplied surname (last_name c)
      \<and> supplied mail (email c))"


text \<open>
  \<open>today + timedelta(days=n)\<close> on the proleptic Gregorian calendar, one day at a time;
  \<open>datetime.date\<close> raises \<open>OverflowError\<close> beyond year 9999.
\<close>

definition is_leap :: "nat \<Rightarrow> bool" where
  "is_leap y = (y mod 4 = 0 \<and> (y mod 100 \<noteq> 0 \<or> y mod 400 = 0))"

definition days_in_month :: "nat \<Rightarrow> nat \<Rightarrow> nat" where
  "days_in_month y m =
     (if m = 2 then (if is_leap y then 29 else 28)
      else if m = 4 \<or> m = 6 \<or> m = 9 \<or> m = 11 then 30 else 31)"

definition next_day :: "date \<Rightarrow> date" where
  "next_day d =
     (if day d < days_in_month (year d) (month d) then \<lparr>year = year d, month = month d, day = day d + 1\<rparr>
      else if month d < 12 then \<lparr>year = year d, month = month d + 1, day = 1\<rparr>
      else \<lparr>year = year d + 1, month = 1, day = 1\<rparr>)"

fun plus_days :: "date \<Rightarrow> nat \<Rightarrow> date" where
  "plus_days d 0 = d"
| "plus_days d (Suc n) = plus_days (next_day d) n"

definition add_timedelta :: "date \<Rightarrow> nat \<Rightarrow> error + date" where
  "add_timedelta d n = (let r = plus_days d n in if year r > 9999 then Inl OverflowError else Inr r)"

text \<open>
  \<open>get_upcoming_birthdays\<close>; \<open>today\<close> is the value of \<open>datetime.today().date()\<close>. The
  statement has no condition on the owner.
\<close>

definition get_upcoming_birthdays :: "date \<Rightarrow> contact_row list \<Rightarrow> error + contact_row list" where
  "get_upcoming_birthdays today db =
     (case add_timedelta today 7 of
        Inl e \<Rightarrow> Inl e
      | Inr in_one_week \<Rightarrow>
          Inr (filter (\<lambda>c. month (birthday c) \<ge> month today
                         \<and> day (birthday c) \<ge> day today
                         \<and> month (birthday c) \<le> month in_one_week
                         \<and> day (birthday c) \<le> day in_one_week) db))"

text \<open>
  \<open>get_contact\<close> ends in \<open>scalar_one\<close>: it returns the row or raises, and never returns
  \<open>None\<close>. The result is optional only because the caller tests it against \<open>None\<close>.
\<close>

definition get_contact :: "int \<Rightarrow> int \<Rightarrow> contact_row list \<Rightarrow> error + contact_row option" where
  "get_contact contact_id uid db =
     (case scalar_one (filter (\<lambda>c. id_contact c = contact_id) (filter (\<lambda>c. user_id c = Some uid) db)) of
        Inl e \<Rightarrow> Inl e
      | Inr c \<Rightarrow> Inr (Some c))"

text \<open>
  The key the database assigns to a new row, taken as one more than the largest key in
  the table (a sequence of the database would not reuse the key of a deleted last row;
  no property below depends on the value).
\<close>

definition next_id :: "int list \<Rightarrow> int" where
  "next_id ids = fold max ids 0 + 1"

text \<open>
  \<open>create_contact\<close> builds the row from the body alone: no owner is passed to the
  constructor, so the column keeps its default \<open>None\<close>. The result is the refreshed
  object and the table after the commit.
\<close>

definition create_contact :: "contact_model \<Rightarrow> contact_row list \<Rightarrow> contact_row \<times> contact_row list" where
  "create_contact body db =
     (let contact = \<lparr>id_contact = next_id (map id_contact db),
                       user_id = None,
                       first_name = cm_first_name body,
                       last_name = cm_last_name body,
                       email = cm_email body,
                       phone = cm_phone body,
                       birthday = cm_birthday body,
                       additional_note = cm_additional_note body\<rparr>
      in (contact, db @ [contact]))"

text \<open>
  \<open>update_contact\<close>. The first five assignments end in a comma, so each assigns the
  one-element tuple of the body's field; the last assigns the field itself. The object
  is returned as it is after the assignments. \<open>commit\<close> is the parameter for what
  \<open>db.commit()\<close> does with the changed object: the row it writes in place of the rows
  with the object's key, or the exception it raises.
\<close>

definition update_contact ::
  "(contact_obj \<Rightarrow> error + contact_row) \<Rightarrow> int \<Rightarrow> int \<Rightarrow> contact_model \<Rightarrow> contact_row list
     \<Rightarrow> error + (contact_obj option \<times> contact_row list)" where
  "update_contact commit contact_id uid body db =
     (case scalar_one_or_none
             (filter (\<lambda>c. id_contact c = contact_id) (filter (\<lambda>c. user_id c = Some uid) db)) of
        Inl e \<Rightarrow> Inl e
      | Inr None \<Rightarrow> Inr (None, db)
      | Inr (Some contact) \<Rightarrow>
          (let contact' = \<lparr>id_contact = id_contact contact,
                             user_id = user_id contact,
                             first_name = Tuple1 (cm_first_name body),
                             last_name = Tuple1 (cm_last_name body),
                             email = Tuple1 (cm_email body),
                             phone = Tuple1 (cm_phone body),
                             birthday = Tuple1 (cm_birthday body),
                             additional_note = cm_additional_note body\<rparr>
           in case commit contact' of
                Inl e \<Rightarrow> Inl e
              | Inr row \<Rightarrow>
                  Inr (Some contact',
                       map (\<lambda>c. if id_contact c = id_contact contact then row else c) db)))"

definition remove_contact :: "int \<Rightarrow> int \<Rightarrow> contact_row list \<Rightarrow> error + (contact_row option \<times> contact_row list)" where
  "remove_contact note_id uid db =
     (case scalar_one_or_none
             (filter (\<lambda>c. id_contact c = note_id) (filter (\<lambda>c. user_id c = Some uid) db)) of
        Inl e \<Rightarrow> Inl e
      | Inr None \<Rightarrow> Inr (None, db)
      | Inr (Some contact) \<Rightarrow>
          Inr (Some contact, filter (\<lambda>c. id_contact c \<noteq> id_contact contact) db))"

section \<open>Contact routes (\<open>src/routes/contacts.py\<close>)\<close>

text \<open>
  \<open>user\<close> is the authenticated caller, resolved by \<open>auth_service.get_current_user\<close>. The
  rate limiter is not modelled. A route that shares its name with the repository
  function it calls carries the suffix \<open>_route\<close>.
\<close>

definition NOT_FOUND_MESSAGE :: string where
  "NOT_FOUND_MESSAGE = ''Contact not found''"

definition read_contacts ::
  "(string \<Rightarrow> string \<Rightarrow> bool) \<Rightarrow> int \<Rightarrow> int \<Rightarrow> string option \<Rightarrow> string option \<Rightarrow> string option
     \<Rightarrow> contact_row list \<Rightarrow> user \<Rightarrow> error + contact_row list" where
  "read_contacts like skip limit name surname mail db usr =
     get_contacts like skip limit db (id_user usr) name surname mail"

definition birthdays :: "date \<Rightarrow> contact_row list \<Rightarrow> user \<Rightarrow> error + contact_row list" where
  "birthdays today db usr = get_upcoming_birthdays today db"

definition read_contact :: "int \<Rightarrow> contact_row list \<Rightarrow> user \<Rightarrow> error + contact_row" where
  "read_contact contact_id db usr =
     (case get_contact contact_id (id_user usr) db of
        Inl e \<Rightarrow> Inl e
      | Inr None \<Rightarrow> Inl (HTTPException 404 NOT_FOUND_MESSAGE)
      | Inr (Some contact) \<Rightarrow> Inr contact)"

definition create_contact_route :: "contact_model \<Rightarrow> contact_row list \<Rightarrow> user \<Rightarrow> contact_row \<times> contact_row list" where
  "create_contact_route body db usr = create_contact body db"

definition update_contact_route ::
  "(contact_obj \<Rightarrow> error + contact_row) \<Rightarrow> contact_model \<Rightarrow> int \<Rightarrow> contact_row list \<Rightarrow> user
     \<Rightarrow> error + (contact_obj \<times> contact_row list)" where
  "update_contact_route commit body contact_id db usr =
     (case update_contact commit contact_id (id_user usr) body db of
        Inl e \<Rightarrow> Inl e
      | Inr (None, db') \<Rightarrow> Inl (HTTPException 404 NOT_FOUND_MESSAGE)
      | Inr (Some contact, db') \<Rightarrow> Inr (contact, db'))"

definition remove_contact_route :: "int \<Rightarrow> contact_row list \<Rightarrow> user \<Rightarrow> error + (contact_row \<times> contact_row list)" where
  "remove_contact_route contact_id db usr =
     (case remove_contact contact_id (id_user usr) db of
        Inl e \<Rightarrow> Inl e
      | Inr (None, db') \<Rightarrow> Inl (HTTPException 404 NOT_FOUND_MESSAGE)
      | Inr (Some contact, db') \<Rightarrow> Inr (contact, db'))"

section \<open>User directory (\<open>src/repository/users.py\<close>)\<close>

definition get_user_by_email :: "string \<Rightarrow> user list \<Rightarrow> error + user option" where
  "get_user_by_email mail db = scalar_one_or_none (filter (\<lambda>u. email_user u = mail) db)"

text \<open>
  \<open>create_user\<close>. \<open>gravatar\<close> is the avatar collaborator (\<open>Gravatar(email).get_image()\<close>):
  the image URL, or the exception it raises, which the \<open>except\<close> clause swallows.

  Modelled from the spec: the storage layer rejects a second row with the same email
  (the uniqueness constraint of \<open>User.email\<close>, declared in the missing
  \<open>src/database/models.py\<close>).
\<close>

definition create_user :: "(string \<Rightarrow> error + string) \<Rightarrow> user_schema \<Rightarrow> user list \<Rightarrow> error + (user \<times> user list)" where
  "create_user gravatar body db =
     (let avatar = (case gravatar (us_email body) of Inl err \<Rightarrow> None | Inr url \<Rightarrow> Some url);
          new_user = \<lparr>id_user = next_id (map id_user db),
                        username = us_username body,
                        email_user = us_email body,
                        password = us_password body,
                        avatar = avatar,
                        is_confirmed = False,
                        refresh_token = None\<rparr>
      in if us_email body \<in> set (map email_user db) then Inl IntegrityError
         else Inr (new_user, db @ [new_user]))"

text \<open>
  An assignment to an attribute of a loaded object, followed by \<open>db.commit()\<close>, updates
  the rows with the object's key.
\<close>

definition update_token :: "user \<Rightarrow> string option \<Rightarrow> user list \<Rightarrow> user list" where
  "update_token usr token db =
     map (\<lambda>u. if id_user u = id_user usr then u\<lparr>refresh_token := token\<rparr> else u) db"

text \<open>
  \<open>confirmed_email\<close> commits and then prints \<open>user.is_confirmed\<close>. \<open>expire_on_commit\<close> is
  the setting of the session factory (\<open>src/database/db.py\<close>, not among the sources; the
  default of SQLAlchemy is \<open>True\<close>): with it the commit expires the attributes of the
  object, and reading one from an asynchronous session raises \<open>MissingGreenlet\<close>, after
  the row has been written. The result is what the call returns or raises, and the
  table it leaves behind.
\<close>

definition confirmed_email :: "bool \<Rightarrow> string \<Rightarrow> user list \<Rightarrow> (error + unit) \<times> user list" where
  "confirmed_email expire_on_commit mail db =
     (case get_user_by_email mail db of
        Inl e \<Rightarrow> (Inl e, db)
      | Inr None \<Rightarrow> (Inl AttributeError, db)
      | Inr (Some usr) \<Rightarrow>
          (let db' = map (\<lambda>u. if id_user u = id_user usr then u\<lparr>is_confirmed := True\<rparr> else u) db
           in if expire_on_commit then (Inl MissingGreenlet, db') else (Inr (), db')))"

section \<open>Authentication routes (\<open>src/routes/auth.py\<close>)\<close>

text \<open>
  A route returns its response or the exception it raises, together with the user table
  it leaves behind: \<open>refresh_token\<close> writes before it raises. Responses that are
  dictionaries are association lists.
\<close>

definition signup ::
  "auth_service \<Rightarrow> (string \<Rightarrow> error + string) \<Rightarrow> user_schema \<Rightarrow> string \<Rightarrow> user list
     \<Rightarrow> (error + (user \<times> email_task list)) \<times> user list" where
  "signup svc gravatar body base_url db =
     (case get_user_by_email (us_email body) db of
        Inl e \<Rightarrow> (Inl e, db)
      | Inr (Some exist_user) \<Rightarrow> (Inl (HTTPException 409 ''Account already exists''), db)
      | Inr None \<Rightarrow>
          (case create_user gravatar (body\<lparr>us_password := get_password_hash svc (us_password body)\<rparr>) db of
             Inl e \<Rightarrow> (Inl e, db)
           | Inr (new_user, db') \<Rightarrow>
               (Inr (new_user, [(email_user new_user, username new_user, base_url)]), db')))"

definition login ::
  "auth_service \<Rightarrow> string \<Rightarrow> string \<Rightarrow> user list \<Rightarrow> (error + (string \<times> string) list) \<times> user list" where
  "login svc body_username body_password db =
     (case get_user_by_email body_username db of
        Inl e \<Rightarrow> (Inl e, db)
      | Inr None \<Rightarrow> (Inl (HTTPException 401 ''Invalid email''), db)
      | Inr (Some usr) \<Rightarrow>
          if \<not> is_confirmed usr then (Inl (HTTPException 401 ''Email not confirmed''), db)
          else if \<not> verify_password svc body_password (password usr)
          then (Inl (HTTPException 401 ''Invalid password''), db)
          else
            (let access = create_access_token svc [(''sub'', email_user usr), (''test'', ''test'')];
                 refresh = create_refresh_token svc [(''sub'', email_user usr)]
             in (Inr [(''access_token'', access), (''refresh_token'', refresh), (''token_type'', ''bearer'')],
                 update_token usr (Some refresh) db)))"

definition refresh_token_route ::
  "auth_service \<Rightarrow> string \<Rightarrow> user list \<Rightarrow> (error + (string \<times> string) list) \<times> user list" where
  "refresh_token_route svc token db =
     (case get_email_form_refresh_token svc token of
        Inl e \<Rightarrow> (Inl e, db)
      | Inr mail \<Rightarrow>
          (case get_user_by_email mail db of
             Inl e \<Rightarrow> (Inl e, db)
           | Inr None \<Rightarrow> (Inl AttributeError, db)
           | Inr (Some usr) \<Rightarrow>
               if refresh_token usr \<noteq> Some token
               then (Inl (HTTPException 401 ''Invalid refresh token''), update_token usr None db)
               else
                 (let access = create_access_token svc [(''sub'', mail)];
                      refresh = create_refresh_token svc [(''sub'', mail)]
                  in (Inr [(''access_token'', access), (''refresh_token'', refresh), (''token_type'', ''bearer'')],
                      update_token usr (Some refresh) db))))"


text \<open>
  \<open>request_email\<close> reads \<open>user.is_confirmed\<close> first and tests \<open>if user\<close> afterwards.
  Reading an attribute of \<open>None\<close> raises \<open>AttributeError\<close>.
\<close>

definition getattr_is_confirmed :: "user option \<Rightarrow> error + bool" where
  "getattr_is_confirmed usr = (case usr of None \<Rightarrow> Inl AttributeError | Some u \<Rightarrow> Inr (is_confirmed u))"

definition request_email ::
  "string \<Rightarrow> string \<Rightarrow> user list \<Rightarrow> error + ((string \<times> string) list \<times> email_task list)" where
  "request_email body_email base_url db =
     (case get_user_by_email body_email db of
        Inl e \<Rightarrow> Inl e
      | Inr usr \<Rightarrow>
          (case getattr_is_confirmed usr of
             Inl e \<Rightarrow> Inl e
           | Inr confirmed \<Rightarrow>
               if confirmed then Inr ([(''message'', ''Your email is already confirmed'')], [])
               else
                 (let background_tasks =
                        (case usr of
                           Some u \<Rightarrow> [(email_user u, username u, base_url)]
                         | None \<Rightarrow> [])
                  in Inr ([(''message'', ''Check your email for confirmation.'')], background_tasks))))"

section \<open>Example data\<close>

definition alice :: user where
  "alice = \<lparr>id_user = 1, username = ''alice'', email_user = ''alice@example.com'',
             password = ''hash-a'', avatar = None, is_confirmed = True,
             refresh_token = Some ''r1:alice@example.com''\<rparr>"

definition bob :: user where
  "bob = \<lparr>id_user = 2, username = ''bob'', email_user = ''bob@example.com'',
           password = ''hash-b'', avatar = None, is_confirmed = False, refresh_token = None\<rparr>"

text \<open>Three contacts of \<open>alice\<close>, born on 30 June, 10 July and 12 June.\<close>

definition john :: contact_row where
  "john = \<lparr>id_contact = 1, user_id = Some 1, first_name = ''John'', last_name = ''Doe'',
            email = ''john.doe@example.com'', phone = ''1234567890'',
            birthday = \<lparr>year = 1990, month = 6, day = 30\<rparr>, additional_note = Some ''Test''\<rparr>"

definition joanna :: contact_row where
  "joanna = \<lparr>id_contact = 2, user_id = Some 1, first_name = ''Joanna'', last_name = ''Roe'',
              email = ''joanna@example.com'', phone = ''555'',
              birthday = \<lparr>year = 1985, month = 7, day = 10\<rparr>, additional_note = None\<rparr>"

definition mark :: contact_row where
  "mark = \<lparr>id_contact = 3, user_id = Some 1, first_name = ''Mark'', last_name = ''Poe'',
            email = ''mark@example.com'', phone = ''777'',
            birthday = \<lparr>year = 1992, month = 6, day = 12\<rparr>, additional_note = None\<rparr>"

definition jane_body :: contact_model where
  "jane_body = \<lparr>cm_first_name = ''Jane'', cm_last_name = ''Doe'', cm_email = ''jane@example.com'',
                 cm_phone = ''42'', cm_birthday = \<lparr>year = 1991, month = 1, day = 2\<rparr>,
                 cm_additional_note = Some ''new''\<rparr>"

definition jane_obj :: contact_obj where
  "jane_obj = \<lparr>id_contact = 1, user_id = Some 1, first_name = Tuple1 ''Jane'',
                last_name = Tuple1 ''Doe'', email = Tuple1 ''jane@example.com'',
                phone = Tuple1 ''42'', birthday = Tuple1 \<lparr>year = 1991, month = 1, day = 2\<rparr>,
                additional_note = Some ''new''\<rparr>"

text \<open>
  A \<open>commit\<close> that binds a plain value to its column and raises on a tuple, the way a
  driver with typed parameters does.
\<close>

definition commit_strict :: "contact_obj \<Rightarrow> error + contact_row" where
  "commit_strict obj =
     (case (first_name obj, last_name obj, email obj, phone obj, birthday obj) of
        (Val f, Val l, Val e, Val p, Val b) \<Rightarrow>
          Inr \<lparr>id_contact = id_contact obj, user_id = user_id obj, first_name = f, last_name = l,
               email = e, phone = p, birthday = b, additional_note = additional_note obj\<rparr>
      | _ \<Rightarrow> Inl (Exception ''DBAPIError''))"

text \<open>
  An example token service: a token is a tag, a colon and the subject; the hash of a
  password is the password behind \<open>hash-\<close>.
\<close>

definition subject_of :: "string \<Rightarrow> error + string" where
  "subject_of t =
     (if CHR '':'' \<in> set t then Inr (tl (dropWhile (\<lambda>c. c \<noteq> CHR '':'') t))
      else Inl (HTTPException 401 ''Could not validate credentials''))"

definition svc0 :: auth_service where
  "svc0 = \<lparr>get_password_hash = (\<lambda>p. ''hash-'' @ p),
            verify_password = (\<lambda>p h. h = ''hash-'' @ p),
            create_access_token = (\<lambda>d. ''a2:'' @ (case map_of d ''sub'' of Some m \<Rightarrow> m | None \<Rightarrow> [])),
            create_refresh_token = (\<lambda>d. ''r2:'' @ (case map_of d ''sub'' of Some m \<Rightarrow> m | None \<Rightarrow> [])),
            get_email_form_refresh_token = subject_of,
            get_email_from_token = subject_of\<rparr>"

definition carol_schema :: user_schema where
  "carol_schema = \<lparr>us_username = ''carol'', us_email = ''carol@example.com'', us_password = ''c''\<rparr>"

text \<open>An avatar collaborator that is out of service.\<close>

definition gravatar_down :: "string \<Rightarrow> error + string" where
  "gravatar_down mail = Inl (Exception ''timeout'')"

definition carol :: user where
  "carol = \<lparr>id_user = 3, username = ''carol'', email_user = ''carol@example.com'',
             password = ''c'', avatar = None, is_confirmed = False, refresh_token = None\<rparr>"

section \<open>Listing with filters\<close>

text \<open>The matcher on the patterns that \<open>contains\<close> makes from a literal filter.\<close>

lemma like_match_percent: "like_match ''%'' t"
  by (induction t) auto

lemma like_match_prefix:
  "CHR ''%'' \<notin> set n \<Longrightarrow> CHR ''_'' \<notin> set n \<Longrightarrow> CHR 0x5C \<notin> set n \<Longrightarrow>
     like_match (n @ ''%'') t = prefix n t"
proof (induction n arbitrary: t)
  case Nil
  then show ?case by (simp add: like_match_percent)
next
  case (Cons p ps)
  then show ?case by (cases t) auto
qed

lemma like_match_sublist:
  assumes "CHR ''%'' \<notin> set n" and "CHR ''_'' \<notin> set n" and "CHR 0x5C \<notin> set n"
  shows "like_match (CHR ''%'' # n @ ''%'') t = sublist n t"
proof (induction t)
  case Nil
  have "like_match (n @ ''%'') [] = prefix n []"
    by (rule like_match_prefix [OF assms])
  then show ?case by simp
next
  case (Cons c cs)
  have "like_match (n @ ''%'') (c # cs) = prefix n (c # cs)"
    by (rule like_match_prefix [OF assms])
  with Cons show ?case
    by (simp add: sublist_Cons_right)
qed

lemma contains_sql_like: "literal (Some s) \<Longrightarrow> contains sql_like col s = sublist s col"
  by (simp add: contains_def sql_like_def literal_def like_match_sublist)

lemma filter_supplied:
  "literal f \<Longrightarrow>
     (case f of
        Some n \<Rightarrow> if n \<noteq> [] then filter (\<lambda>c. contains sql_like (g c) n) xs else xs
      | None \<Rightarrow> xs)
     = filter (\<lambda>c. supplied f (g c)) xs"
  by (cases f) (auto simp: supplied_def contains_sql_like)

text \<open>Whatever the operator \<open>like\<close> is, the rows returned belong to the owner.\<close>

lemma get_contacts_owner:
  "get_contacts like skip limit db uid name surname mail = Inr cs \<Longrightarrow> c \<in> set cs \<Longrightarrow>
     user_id c = Some uid"
  by (auto simp: get_contacts_def Let_def split: option.splits if_splits
      dest!: in_set_takeD in_set_dropD)

text \<open>
  C8, as amended. With the operator \<open>sql_like\<close>, for an offset and a limit that are not
  negative and filters that are literal, \<open>get_contacts\<close> returns exactly the rows of the
  owner in which every supplied filter occurs as a substring of its column (first name,
  last name, email), in storage order, without the first \<open>skip\<close> of them and cut to
  \<open>limit\<close>.
\<close>

theorem get_contacts_exact:
  assumes "0 \<le> skip" and "0 \<le> limit"
    and "literal name" and "literal surname" and "literal mail"
  shows "get_contacts sql_like skip limit db uid name surname mail
           = Inr (take (nat limit) (drop (nat skip) (filter (matches uid name surname mail) db)))"
proof -
  have "filter (\<lambda>c. supplied mail (email c))
          (filter (\<lambda>c. supplied surname (last_name c))
            (filter (\<lambda>c. supplied name (first_name c))
              (filter (\<lambda>c. user_id c = Some uid) db)))
        = filter (matches uid name surname mail) db"
    by (auto simp: matches_def fun_eq_iff intro!: filter_cong)
  with assms show ?thesis
    by (simp add: get_contacts_def filter_supplied)
qed

theorem get_contacts_exact_witness:
  "(0::int) \<le> 0 \<and> (0::int) \<le> 100 \<and> literal (Some ''Jo'') \<and> literal None
   \<and> get_contacts sql_like 0 100 [john, joanna, mark] 1 (Some ''Jo'') None None = Inr [john, joanna]"
proof -
  have l: "literal (Some ''Jo'')" and n: "literal None"
    by (simp_all add: literal_def)
  show ?thesis
    using get_contacts_exact [of 0 100 "Some ''Jo''" None None "[john, joanna, mark]" 1] l n
    by (simp add: matches_def supplied_def john_def joanna_def mark_def sublist_code)
qed

text \<open>
  The claim as it stands fails on the filter \<open>_o\<close>: no first name contains it, and the
  query returns \<open>john\<close> and \<open>joanna\<close>, since \<open>_\<close> stands for any character. It fails on a
  negative offset, which the database refuses.
\<close>

theorem get_contacts_wildcard_counterexample:
  "get_contacts sql_like 0 100 [john, joanna, mark] 1 (Some ''_o'') None None = Inr [john, joanna]
   \<and> filter (matches 1 (Some ''_o'') None None) [john, joanna, mark] = []
   \<and> get_contacts sql_like (- 1) 100 [john, joanna, mark] 1 None None None
        = Inl (Exception ''DBAPIError'')"
  by (simp add: get_contacts_def contains_def sql_like_def matches_def supplied_def john_def
      joanna_def mark_def sublist_code)

section \<open>Upcoming birthdays\<close>

lemmas calendar_defs = add_timedelta_def next_day_def days_in_month_def is_leap_def

lemma birthdays_ignores_user: "birthdays today db u1 = birthdays today db u2"
  by (simp add: birthdays_def)

text \<open>
  C1. The claim: the birthdays endpoint, called for user B, returns only contacts whose
  owner is B. The code: on 10 June 2024, with the single contact \<open>mark\<close> (owner 1, born
  on 12 June) in the table, the endpoint called for \<open>bob\<close> (id 2) returns \<open>mark\<close>.
\<close>

theorem birthdays_returns_foreign_contact:
  "birthdays \<lparr>year = 2024, month = 6, day = 10\<rparr> [mark] bob = Inr [mark]
   \<and> user_id mark \<noteq> Some (id_user bob)"
  by (simp add: birthdays_def get_upcoming_birthdays_def calendar_defs mark_def bob_def
      eval_nat_numeral)

text \<open>
  When the week ends in the next month, the two conditions on the day exclude each
  other and the query returns nothing.
\<close>

lemma window_across_months_is_empty:
  "add_timedelta today 7 = Inr w \<Longrightarrow> day w < day today \<Longrightarrow> get_upcoming_birthdays today db = Inr []"
  by (auto simp: get_upcoming_birthdays_def filter_empty_conv)

text \<open>
  C4. The claim: on 25 June 2024 the query includes a contact born on 30 June and
  excludes one born on 10 July. The code: on that day the week ends on 2 July, and the
  query over \<open>john\<close> (30 June) and \<open>joanna\<close> (10 July) returns no contact at all.
\<close>

theorem upcoming_birthdays_misses_june_30:
  "get_upcoming_birthdays \<lparr>year = 2024, month = 6, day = 25\<rparr> [john, joanna] = Inr []
   \<and> month (birthday john) = 6 \<and> day (birthday john) = 30"
  by (simp add: get_upcoming_birthdays_def calendar_defs john_def joanna_def eval_nat_numeral)

section \<open>Creating a contact\<close>

text \<open>
  C2. The claim: the created contact is owned by the caller. The code: for every body,
  table and caller, the contact that the creation route returns and stores has no owner.
\<close>

theorem create_contact_has_no_owner:
  "user_id (fst (create_contact_route body db usr)) = None
   \<and> user_id (fst (create_contact_route body db usr)) \<noteq> Some (id_user usr)
   \<and> fst (create_contact_route body db usr) \<in> set (snd (create_contact_route body db usr))"
  by (simp add: create_contact_route_def create_contact_def Let_def)

section \<open>Reading one contact\<close>

lemma scalar_one_Inr: "scalar_one xs = Inr x \<Longrightarrow> xs = [x]"
  by (erule scalar_one.elims) auto

text \<open>The route never returns a contact of another owner.\<close>

lemma read_contact_owner:
  "read_contact contact_id db usr = Inr c \<Longrightarrow>
     user_id c = Some (id_user usr) \<and> id_contact c = contact_id \<and> c \<in> set db"
proof -
  let ?rows = "filter (\<lambda>c. id_contact c = contact_id) (filter (\<lambda>c. user_id c = Some (id_user usr)) db)"
  assume "read_contact contact_id db usr = Inr c"
  then have "scalar_one ?rows = Inr c"
    by (auto simp: read_contact_def get_contact_def split: sum.splits option.splits)
  then have "?rows = [c]"
    by (rule scalar_one_Inr)
  then have "c \<in> set ?rows"
    by simp
  then show ?thesis by auto
qed

text \<open>The branch of the route that answers 404 is never taken.\<close>

lemma read_contact_never_404:
  "read_contact contact_id db usr \<noteq> Inl (HTTPException 404 NOT_FOUND_MESSAGE)"
  by (auto simp: read_contact_def get_contact_def split: sum.splits option.splits
      elim: scalar_one.elims)

text \<open>
  C5. The claim: reading a contact that does not exist, or that belongs to another
  owner, answers with the not-found error. The code: \<open>bob\<close> reading contact 1 of
  \<open>alice\<close>, and \<open>alice\<close> reading the missing contact 7, both raise \<open>NoResultFound\<close> out
  of the route, which is not its 404 answer.
\<close>

theorem read_contact_raises_no_result_found:
  "read_contact 1 [john] bob = Inl NoResultFound
   \<and> read_contact 7 [john] alice = Inl NoResultFound
   \<and> Inl NoResultFound \<noteq> (Inl (HTTPException 404 NOT_FOUND_MESSAGE) :: error + contact_row)"
  by (simp add: read_contact_def get_contact_def john_def bob_def alice_def)

section \<open>Updating a contact\<close>

lemma update_contact_returned_object:
  "update_contact commit contact_id uid body db = Inr (Some obj, db') \<Longrightarrow>
     first_name obj = Tuple1 (cm_first_name body) \<and> last_name obj = Tuple1 (cm_last_name body)
     \<and> email obj = Tuple1 (cm_email body) \<and> phone obj = Tuple1 (cm_phone body)
     \<and> birthday obj = Tuple1 (cm_birthday body) \<and> additional_note obj = cm_additional_note body"
  by (auto simp: update_contact_def Let_def split: sum.splits option.splits)

text \<open>
  With a commit that refuses the tuples, the update raises, the table keeps the old row
  and reading it back gives the old first name.
\<close>

lemma update_then_get_strict:
  "update_contact commit_strict 1 1 jane_body [john] = Inl (Exception ''DBAPIError'')
   \<and> get_contact 1 1 [john] = Inr (Some john)
   \<and> first_name john \<noteq> cm_first_name jane_body"
  by (simp add: update_contact_def Let_def get_contact_def commit_strict_def john_def
      jane_body_def)

text \<open>
  C3. The claim: after an update, the contact read back equals the payload field for
  field. The code: updating contact 1 of owner 1 with \<open>jane_body\<close> hands \<open>jane_obj\<close> to the
  commit, and returns it when the commit succeeds; its first name is the tuple
  \<open>(''Jane'',)\<close>, not the string of the payload.
\<close>

theorem update_contact_assigns_tuples:
  "update_contact commit 1 1 jane_body [john]
     = (case commit jane_obj of Inl e \<Rightarrow> Inl e | Inr row \<Rightarrow> Inr (Some jane_obj, [row]))
   \<and> first_name jane_obj = Tuple1 (cm_first_name jane_body)
   \<and> first_name jane_obj \<noteq> Val (cm_first_name jane_body)"
  by (simp add: update_contact_def Let_def john_def jane_body_def jane_obj_def split: sum.split)

section \<open>Looking users up\<close>

lemma scalar_one_or_none_Some: "scalar_one_or_none xs = Inr (Some x) \<Longrightarrow> xs = [x]"
  by (erule scalar_one_or_none.elims) auto

lemma get_user_by_email_Some:
  "get_user_by_email mail db = Inr (Some u) \<Longrightarrow> filter (\<lambda>x. email_user x = mail) db = [u]"
  by (simp add: get_user_by_email_def scalar_one_or_none_Some)

lemma get_user_by_email_None:
  "mail \<notin> set (map email_user db) \<Longrightarrow> get_user_by_email mail db = Inr None"
proof -
  assume "mail \<notin> set (map email_user db)"
  then have "filter (\<lambda>x. email_user x = mail) db = []"
    by (auto simp: filter_empty_conv)
  then show ?thesis by (simp add: get_user_by_email_def)
qed

lemma get_user_by_email_map:
  assumes "get_user_by_email mail db = Inr (Some u)"
    and "\<And>x. email_user (f x) = email_user x"
  shows "get_user_by_email mail (map f db) = Inr (Some (f u))"
proof -
  have "filter (\<lambda>x. email_user x = mail) (map f db) = map f (filter (\<lambda>x. email_user x = mail) db)"
    by (simp add: filter_map comp_def assms(2))
  also have "\<dots> = [f u]"
    by (simp add: get_user_by_email_Some [OF assms(1)])
  finally show ?thesis by (simp add: get_user_by_email_def)
qed

lemma get_user_update_token:
  "get_user_by_email mail db = Inr (Some u) \<Longrightarrow>
     get_user_by_email mail (update_token u token db) = Inr (Some (u\<lparr>refresh_token := token\<rparr>))"
  unfolding update_token_def
  by (drule get_user_by_email_map [where f = "\<lambda>x. if id_user x = id_user u then x\<lparr>refresh_token := token\<rparr> else x"]) auto

lemma get_user_email: "get_user_by_email mail db = Inr (Some u) \<Longrightarrow> email_user u = mail"
proof -
  assume "get_user_by_email mail db = Inr (Some u)"
  then have "u \<in> set (filter (\<lambda>x. email_user x = mail) db)"
    by (simp add: get_user_by_email_Some)
  then show ?thesis by simp
qed

section \<open>Confirming the email\<close>

lemma confirmed_email_Some:
  assumes "get_user_by_email mail db = Inr (Some u)"
  shows "confirmed_email expire mail db
           = (if expire then Inl MissingGreenlet else Inr (),
              map (\<lambda>x. if id_user x = id_user u then x\<lparr>is_confirmed := True\<rparr> else x) db)"
  by (simp add: confirmed_email_def assms)



text \<open>
  With a session that expires on commit, the repository function writes the row and
  then raises, at every call.
\<close>

lemma confirmed_email_expiring:
  "get_user_by_email mail db = Inr (Some u) \<Longrightarrow> fst (confirmed_email True mail db) = Inl MissingGreenlet"
  by (simp add: confirmed_email_Some)



section \<open>Requesting the confirmation email\<close>

text \<open>
  C10. For an email that no user has, \<open>request_email\<close> raises \<open>AttributeError\<close>: the
  attribute is read before the test \<open>if user\<close>. The test never fails where it is reached:
  the route never answers with the message and no task.
\<close>

theorem request_email_unregistered:
  "(body_email \<notin> set (map email_user db) \<longrightarrow> request_email body_email base_url db = Inl AttributeError)
   \<and> request_email body_email base_url db
        \<noteq> Inr ([(''message'', ''Check your email for confirmation.'')], [])"
proof -
  have a: "request_email body_email base_url db = Inl AttributeError"
    if "body_email \<notin> set (map email_user db)"
    using get_user_by_email_None [OF that]
    by (simp add: request_email_def getattr_is_confirmed_def)
  have b: "request_email body_email base_url db
        \<noteq> Inr ([(''message'', ''Check your email for confirmation.'')], [])"
    by (auto simp: request_email_def getattr_is_confirmed_def Let_def split: sum.splits option.splits)
  from a b show ?thesis by simp
qed

theorem request_email_unregistered_witness:
  "''nobody@example.com'' \<notin> set (map email_user [alice, bob])
   \<and> request_email ''nobody@example.com'' ''http://host/'' [alice, bob] = Inl AttributeError"
  using request_email_unregistered [of "''nobody@example.com''" "[alice, bob]" "''http://host/''"]
  by (simp add: alice_def bob_def)


section \<open>The stored refresh token\<close>

text \<open>
  C6. A login that returns a response stores the refresh token of that response, the
  newly created one, for the user; so does a refresh that returns a response. A refresh
  with a token that decodes to a user whose stored token is a different one raises 401
  and stores \<open>None\<close> for that user.
\<close>

theorem refresh_token_rotation:
  "(login svc name pw db_l = (Inr resp_l, db_l') \<longrightarrow>
      (\<exists>u. get_user_by_email name db_l = Inr (Some u)
         \<and> map_of resp_l ''refresh_token'' = Some (create_refresh_token svc [(''sub'', name)])
         \<and> get_user_by_email name db_l'
              = Inr (Some (u\<lparr>refresh_token := Some (create_refresh_token svc [(''sub'', name)])\<rparr>))))
   \<and> (refresh_token_route svc token_r db_r = (Inr resp_r, db_r') \<longrightarrow>
      (\<exists>mail u. get_email_form_refresh_token svc token_r = Inr mail
         \<and> get_user_by_email mail db_r = Inr (Some u)
         \<and> map_of resp_r ''refresh_token'' = Some (create_refresh_token svc [(''sub'', mail)])
         \<and> get_user_by_email mail db_r'
              = Inr (Some (u\<lparr>refresh_token := Some (create_refresh_token svc [(''sub'', mail)])\<rparr>))))
   \<and> (get_email_form_refresh_token svc token_m = Inr mail_m
        \<and> get_user_by_email mail_m db_m = Inr (Some u_m) \<and> refresh_token u_m \<noteq> Some token_m \<longrightarrow>
      refresh_token_route svc token_m db_m
        = (Inl (HTTPException 401 ''Invalid refresh token''), update_token u_m None db_m)
      \<and> get_user_by_email mail_m (update_token u_m None db_m)
           = Inr (Some (u_m\<lparr>refresh_token := None\<rparr>)))"
proof (intro conjI impI)
  assume ok: "login svc name pw db_l = (Inr resp_l, db_l')"
  then obtain u where u: "get_user_by_email name db_l = Inr (Some u)"
    by (auto simp: login_def split: sum.splits option.splits if_splits)
  have mail: "email_user u = name"
    by (rule get_user_email [OF u])
  from ok u mail have resp: "map_of resp_l ''refresh_token'' = Some (create_refresh_token svc [(''sub'', name)])"
    and db: "db_l' = update_token u (Some (create_refresh_token svc [(''sub'', name)])) db_l"
    by (auto simp: login_def Let_def split: if_splits)
  show "\<exists>u. get_user_by_email name db_l = Inr (Some u)
         \<and> map_of resp_l ''refresh_token'' = Some (create_refresh_token svc [(''sub'', name)])
         \<and> get_user_by_email name db_l'
              = Inr (Some (u\<lparr>refresh_token := Some (create_refresh_token svc [(''sub'', name)])\<rparr>))"
    using u resp db get_user_update_token [OF u] by blast
next
  assume ok: "refresh_token_route svc token_r db_r = (Inr resp_r, db_r')"
  then obtain mail where m: "get_email_form_refresh_token svc token_r = Inr mail"
    by (auto simp: refresh_token_route_def split: sum.splits)
  from ok m obtain u where u: "get_user_by_email mail db_r = Inr (Some u)"
    by (auto simp: refresh_token_route_def split: sum.splits option.splits if_splits)
  from ok m u have resp: "map_of resp_r ''refresh_token'' = Some (create_refresh_token svc [(''sub'', mail)])"
    and db: "db_r' = update_token u (Some (create_refresh_token svc [(''sub'', mail)])) db_r"
    by (auto simp: refresh_token_route_def Let_def split: if_splits)
  show "\<exists>mail u. get_email_form_refresh_token svc token_r = Inr mail
         \<and> get_user_by_email mail db_r = Inr (Some u)
         \<and> map_of resp_r ''refresh_token'' = Some (create_refresh_token svc [(''sub'', mail)])
         \<and> get_user_by_email mail db_r'
              = Inr (Some (u\<lparr>refresh_token := Some (create_refresh_token svc [(''sub'', mail)])\<rparr>))"
    using m u resp db get_user_update_token [OF u] by blast
next
  assume h: "get_email_form_refresh_token svc token_m = Inr mail_m
        \<and> get_user_by_email mail_m db_m = Inr (Some u_m) \<and> refresh_token u_m \<noteq> Some token_m"
  then show "refresh_token_route svc token_m db_m
        = (Inl (HTTPException 401 ''Invalid refresh token''), update_token u_m None db_m)"
    by (simp add: refresh_token_route_def)
  from h show "get_user_by_email mail_m (update_token u_m None db_m)
           = Inr (Some (u_m\<lparr>refresh_token := None\<rparr>))"
    by (simp add: get_user_update_token)
qed

theorem refresh_token_rotation_witness:
  "login svc0 ''alice@example.com'' ''a'' [alice, bob]
     = (Inr [(''access_token'', ''a2:alice@example.com''), (''refresh_token'', ''r2:alice@example.com''),
             (''token_type'', ''bearer'')],
        [alice\<lparr>refresh_token := Some ''r2:alice@example.com''\<rparr>, bob])
   \<and> get_user_by_email ''alice@example.com'' [alice\<lparr>refresh_token := Some ''r2:alice@example.com''\<rparr>, bob]
       = Inr (Some (alice\<lparr>refresh_token := Some ''r2:alice@example.com''\<rparr>))
   \<and> refresh_token_route svc0 ''r1:alice@example.com'' [alice, bob]
     = (Inr [(''access_token'', ''a2:alice@example.com''), (''refresh_token'', ''r2:alice@example.com''),
             (''token_type'', ''bearer'')],
        [alice\<lparr>refresh_token := Some ''r2:alice@example.com''\<rparr>, bob])
   \<and> refresh_token alice \<noteq> Some ''r0:alice@example.com''
   \<and> refresh_token_route svc0 ''r0:alice@example.com'' [alice, bob]
     = (Inl (HTTPException 401 ''Invalid refresh token''), [alice\<lparr>refresh_token := None\<rparr>, bob])
   \<and> get_user_by_email ''alice@example.com'' [alice\<lparr>refresh_token := None\<rparr>, bob]
       = Inr (Some (alice\<lparr>refresh_token := None\<rparr>))"
proof -
  have u: "get_user_by_email ''alice@example.com'' [alice, bob] = Inr (Some alice)"
    by (simp add: get_user_by_email_def alice_def bob_def)
  have upd: "update_token alice t [alice, bob] = [alice\<lparr>refresh_token := t\<rparr>, bob]" for t
    by (simp add: update_token_def alice_def bob_def)
  have h1: "login svc0 ''alice@example.com'' ''a'' [alice, bob]
     = (Inr [(''access_token'', ''a2:alice@example.com''), (''refresh_token'', ''r2:alice@example.com''),
             (''token_type'', ''bearer'')],
        [alice\<lparr>refresh_token := Some ''r2:alice@example.com''\<rparr>, bob])"
    by (simp add: login_def u upd Let_def) (simp add: svc0_def alice_def)
  have d1: "get_email_form_refresh_token svc0 ''r1:alice@example.com'' = Inr ''alice@example.com''"
    by (simp add: svc0_def subject_of_def)
  have d0: "get_email_form_refresh_token svc0 ''r0:alice@example.com'' = Inr ''alice@example.com''"
    by (simp add: svc0_def subject_of_def)
  have h2: "refresh_token_route svc0 ''r1:alice@example.com'' [alice, bob]
     = (Inr [(''access_token'', ''a2:alice@example.com''), (''refresh_token'', ''r2:alice@example.com''),
             (''token_type'', ''bearer'')],
        [alice\<lparr>refresh_token := Some ''r2:alice@example.com''\<rparr>, bob])"
    by (simp add: refresh_token_route_def d1 u upd Let_def) (simp add: svc0_def alice_def)
  have t: "create_refresh_token svc0 [(''sub'', ''alice@example.com'')] = ''r2:alice@example.com''"
    by (simp add: svc0_def)
  have h3: "refresh_token alice \<noteq> Some ''r0:alice@example.com''"
    by (simp add: alice_def)
  show ?thesis
    using refresh_token_rotation [where svc = svc0 and name = "''alice@example.com''" and pw = "''a''"
        and db_l = "[alice, bob]" and token_r = "''r1:alice@example.com''" and db_r = "[alice, bob]"
        and token_m = "''r0:alice@example.com''" and db_m = "[alice, bob]" and u_m = alice
        and mail_m = "''alice@example.com''"
        and resp_l = "[(''access_token'', ''a2:alice@example.com''),
                       (''refresh_token'', ''r2:alice@example.com''), (''token_type'', ''bearer'')]"
        and db_l' = "[alice\<lparr>refresh_token := Some ''r2:alice@example.com''\<rparr>, bob]"
        and resp_r = "[(''access_token'', ''a2:alice@example.com''),
                       (''refresh_token'', ''r2:alice@example.com''), (''token_type'', ''bearer'')]"
        and db_r' = "[alice\<lparr>refresh_token := Some ''r2:alice@example.com''\<rparr>, bob]"]
      h1 h2 h3 d0 u
    by (simp add: upd t)
qed

section \<open>Signing up\<close>

text \<open>
  C9. When the avatar lookup raises and the email is not registered yet, \<open>create_user\<close>
  and the signup route succeed: the user is appended to the table with avatar \<open>None\<close>.
\<close>

theorem create_user_avatar_failure:
  assumes "gravatar (us_email body) = Inl err"
    and "us_email body \<notin> set (map email_user db)"
  shows "(case create_user gravatar body db of
            Inl e \<Rightarrow> False
          | Inr (u, db') \<Rightarrow>
              avatar u = None \<and> email_user u = us_email body \<and> username u = us_username body
              \<and> db' = db @ [u])
       \<and> (case signup svc gravatar body base_url db of
            (Inl e, db') \<Rightarrow> False
          | (Inr (u, tasks), db') \<Rightarrow>
              avatar u = None \<and> email_user u = us_email body \<and> username u = us_username body
              \<and> db' = db @ [u])"
proof -
  have none: "get_user_by_email (us_email body) db = Inr None"
    by (rule get_user_by_email_None [OF assms(2)])
  have repo: "(case create_user gravatar body db of
            Inl e \<Rightarrow> False
          | Inr (u, db') \<Rightarrow>
              avatar u = None \<and> email_user u = us_email body \<and> username u = us_username body
              \<and> db' = db @ [u])"
    using assms by (simp add: create_user_def Let_def)
  have route: "(case signup svc gravatar body base_url db of
            (Inl e, db') \<Rightarrow> False
          | (Inr (u, tasks), db') \<Rightarrow>
              avatar u = None \<and> email_user u = us_email body \<and> username u = us_username body
              \<and> db' = db @ [u])"
    using assms by (simp add: signup_def none create_user_def Let_def)
  from repo route show ?thesis by simp
qed

theorem create_user_avatar_failure_witness:
  "gravatar_down (us_email carol_schema) = Inl (Exception ''timeout'')
   \<and> us_email carol_schema \<notin> set (map email_user [alice, bob])
   \<and> create_user gravatar_down carol_schema [alice, bob] = Inr (carol, [alice, bob, carol])
   \<and> signup svc0 gravatar_down carol_schema ''http://host/'' [alice, bob]
       = (Inr (carol\<lparr>password := ''hash-c''\<rparr>, [(''carol@example.com'', ''carol'', ''http://host/'')]),
          [alice, bob, carol\<lparr>password := ''hash-c''\<rparr>])"
proof -
  have h1: "gravatar_down (us_email carol_schema) = Inl (Exception ''timeout'')"
    by (simp add: gravatar_down_def)
  have h2: "us_email carol_schema \<notin> set (map email_user [alice, bob])"
    by (simp add: carol_schema_def alice_def bob_def)
  have ids: "next_id [id_user alice, id_user bob] = 3"
    by (simp add: next_id_def alice_def bob_def)
  have c: "create_user gravatar_down carol_schema [alice, bob] = Inr (carol, [alice, bob, carol])"
    using h2 by (simp add: create_user_def Let_def ids gravatar_down_def) (simp add: carol_def carol_schema_def)
  have none: "get_user_by_email (us_email carol_schema) [alice, bob] = Inr None"
    by (simp add: get_user_by_email_def carol_schema_def alice_def bob_def)
  have s: "signup svc0 gravatar_down carol_schema ''http://host/'' [alice, bob]
       = (Inr (carol\<lparr>password := ''hash-c''\<rparr>, [(''carol@example.com'', ''carol'', ''http://host/'')]),
          [alice, bob, carol\<lparr>password := ''hash-c''\<rparr>])"
    using h2 by (simp add: signup_def none create_user_def Let_def ids gravatar_down_def)
      (simp add: carol_def carol_schema_def svc0_def)
  show ?thesis
    using create_user_avatar_failure [where gravatar = gravatar_down and body = carol_schema
        and db = "[alice, bob]" and svc = svc0 and base_url = "''http://host/''", OF h1 h2] h1 h2
    by (simp add: c s)
qed

end
